theory Spec2Isabelle
  imports Main
begin

section \<open>JavaScript values of the tracker\<close>

text \<open>
  The exceptions that the modelled code can raise: reading a property of \<open>undefined\<close> or
  \<open>null\<close> (or calling something that is no function) is a \<open>TypeError\<close>, and
  \<open>JSON.parse\<close> on a string that is no JSON text is a \<open>SyntaxError\<close>.
\<close>

datatype error = TypeError | SyntaxError

text \<open>
  Times are whole seconds and clock readings are whole milliseconds, so a JavaScript number
  is an integer here, or \<open>NaN\<close> (what \<open>undefined + 1\<close> evaluates to).
\<close>

datatype number = Num int | NaN

text \<open>
  \<open>interface CategoryData { time: number; color: string }\<close>. The field \<open>time\<close> is optional
  in the model (\<open>None\<close> is a missing field, read as \<open>undefined\<close>), because
  \<open>editCategory\<close> can build an entry that has a colour only.
\<close>

record CategoryData =
  time :: "number option"
  color :: string

text \<open>
  \<open>interface DayData { date: string; categories: Record<string, CategoryData> }\<close>, the
  entries of \<open>categories\<close> in the order in which the object enumerates them.
\<close>

record DayData =
  date :: string
  categories :: "(string \<times> CategoryData) list"

text \<open>\<open>x + y\<close> on field values: a sum with \<open>undefined\<close> or \<open>NaN\<close> is \<open>NaN\<close>.\<close>

fun js_add :: "number option \<Rightarrow> number option \<Rightarrow> number" where
  "js_add (Some (Num a)) (Some (Num b)) = Num (a + b)"
| "js_add x y = NaN"

text \<open>\<open>x > 0\<close> on a field value: false for \<open>undefined\<close> and \<open>NaN\<close>.\<close>

fun positive :: "number option \<Rightarrow> bool" where
  "positive (Some (Num a)) = (a > 0)"
| "positive x = False"

text \<open>
  \<open>getTotalTime\<close>: \<open>Object.values(categories).reduce((acc, cat) => acc + cat.time, 0)\<close>.
\<close>

definition getTotalTime :: "(string \<times> CategoryData) list \<Rightarrow> number" where
  "getTotalTime cats = foldl (\<lambda>acc cat. js_add (Some acc) (time cat)) (Num 0) (map snd cats)"

text \<open>
  \<open>String.prototype.trim\<close>, on the ASCII white space characters (tab, line feed, vertical
  tab, form feed, carriage return, space).
\<close>

definition whitespace :: "char \<Rightarrow> bool" where
  "whitespace c = (c \<in> set [CHR 0x09, CHR 0x0A, CHR 0x0B, CHR 0x0C, CHR 0x0D, CHR '' ''])"

definition trim :: "string \<Rightarrow> string" where
  "trim s = rev (dropWhile whitespace (rev (dropWhile whitespace s)))"

section \<open>The hook \<open>useGoodWorks\<close>\<close>

text \<open>
  The callback that \<open>startCategory\<close> hands to \<open>window.setInterval\<close> closes over \<open>name\<close>;
  the one of \<open>startTimer\<close> closes over \<open>name\<close>, \<open>startTime\<close>, \<open>endTime\<close> and the
  mutable local \<open>elapsedIntervals\<close>, in this order.
\<close>

datatype callback = Stopwatch string | Countdown string int int int

text \<open>
  The state of the hook: the React state \<open>categories\<close> and \<open>activeCategory\<close>, the refs
  \<open>intervalRef\<close> and \<open>timerEndRef\<close>, and the part of the environment the hook acts on:
  \<open>intervals\<close> is the window's table of live intervals (handle and callback),
  \<open>nextHandle\<close> the handle that the next \<open>setInterval\<close> returns, and \<open>completed\<close> lists
  the completion signals requested so far (one \<open>sendNotification\<close> with one
  \<open>playRingtone\<close>, for the named category). State setters take effect at once. A lookup
  \<open>categories[name]\<close> is a lookup among the entries of the object; the names of the
  members that every object inherits (\<open>constructor\<close>, \<open>toString\<close> and the like), which
  JavaScript finds as well, are not category names of the model.
\<close>

record hook =
  categories :: "string \<rightharpoonup> CategoryData"
  activeCategory :: "string option"
  intervalRef :: "nat option"
  timerEndRef :: "int option"
  intervals :: "(nat \<times> callback) list"
  nextHandle :: nat
  completed :: "string list"

text \<open>The hook as first rendered, over the loaded categories. Interval handles are positive.\<close>

definition initial :: "(string \<rightharpoonup> CategoryData) \<Rightarrow> hook" where
  "initial cats =
     \<lparr>categories = cats, activeCategory = None, intervalRef = None, timerEndRef = None,
      intervals = [], nextHandle = 1, completed = []\<rparr>"

definition setInterval :: "callback \<Rightarrow> hook \<Rightarrow> nat \<times> hook" where
  "setInterval cb s =
     (nextHandle s, s\<lparr>intervals := intervals s @ [(nextHandle s, cb)], nextHandle := Suc (nextHandle s)\<rparr>)"

definition clearInterval :: "nat option \<Rightarrow> hook \<Rightarrow> hook" where
  "clearInterval h s = s\<lparr>intervals := filter (\<lambda>(i, cb). Some i \<noteq> h) (intervals s)\<rparr>"

text \<open>
  \<open>stopActive\<close>: \<open>if (intervalRef.current)\<close> tests the handle for truthiness, so a handle
  \<open>0\<close> would not be cleared.
\<close>

definition stopActive :: "hook \<Rightarrow> hook" where
  "stopActive s =
     (let s1 = (case intervalRef s of
                  None \<Rightarrow> s
                | Some h \<Rightarrow> if h \<noteq> 0 then (clearInterval (Some h) s)\<lparr>intervalRef := None\<rparr> else s)
      in s1\<lparr>activeCategory := None, timerEndRef := None\<rparr>)"

definition startCategory :: "string \<Rightarrow> hook \<Rightarrow> hook" where
  "startCategory name s =
     (let s1 = stopActive s;
          s2 = s1\<lparr>activeCategory := Some name\<rparr>;
          (h, s3) = setInterval (Stopwatch name) s2
      in s3\<lparr>intervalRef := Some h\<rparr>)"

text \<open>
  \<open>startTimer(name, seconds, ringtone)\<close> called when \<open>Date.now()\<close> is \<open>now\<close>. The ringtone
  only selects the sound of the completion signal and is left out.
\<close>

definition startTimer :: "string \<Rightarrow> int \<Rightarrow> int \<Rightarrow> hook \<Rightarrow> hook" where
  "startTimer name seconds now s =
     (let s1 = stopActive s;
          s2 = s1\<lparr>activeCategory := Some name\<rparr>;
          startTime = now;
          endTime = startTime + seconds * 1000;
          s3 = s2\<lparr>timerEndRef := Some endTime\<rparr>;
          (h, s4) = setInterval (Countdown name startTime endTime 0) s3
      in s4\<lparr>intervalRef := Some h\<rparr>)"

text \<open>
  The state updater of both callbacks reads \<open>prev[name].time\<close>: a \<open>TypeError\<close> when
  \<open>prev\<close> has no entry \<open>name\<close>; otherwise the entry gets the time \<open>prev[name].time + k\<close>.
  An exception of the updater is taken as the exception of the firing that set the state.
\<close>

definition addTime :: "string \<Rightarrow> int \<Rightarrow> hook \<Rightarrow> error + hook" where
  "addTime name k s =
     (case categories s name of
        None \<Rightarrow> Inl TypeError
      | Some c \<Rightarrow> Inr (s\<lparr>categories := (categories s)(name \<mapsto> c\<lparr>time := Some (js_add (time c) (Some (Num k)))\<rparr>)\<rparr>))"

text \<open>\<open>Math.ceil(a / 1000)\<close> and \<open>Math.floor(a / 1000)\<close> on integers; \<open>div\<close> rounds down.\<close>

definition ceil1000 :: "int \<Rightarrow> int" where
  "ceil1000 a = - ((- a) div 1000)"

definition floor1000 :: "int \<Rightarrow> int" where
  "floor1000 a = a div 1000"

text \<open>
  The completion branch of the countdown callback: the interval in \<open>intervalRef\<close> is
  cleared, the active category is reset, and the notification and the ringtone are
  requested.
\<close>

definition complete :: "string \<Rightarrow> hook \<Rightarrow> hook" where
  "complete name s =
     (clearInterval (intervalRef s) s)
       \<lparr>intervalRef := None, activeCategory := None, completed := completed s @ [name]\<rparr>"

text \<open>
  One run of the callback of interval \<open>h\<close> when \<open>Date.now()\<close> is \<open>now\<close>. The countdown
  callback stores the new \<open>elapsedIntervals\<close> in its closure, which is the entry of \<open>h\<close> in
  the table.
\<close>

fun tick :: "nat \<Rightarrow> callback \<Rightarrow> int \<Rightarrow> hook \<Rightarrow> error + hook" where
  "tick h (Stopwatch name) now s = addTime name 1 s"
| "tick h (Countdown name startTime endTime elapsedIntervals) now s =
     (let totalElapsed = now - startTime;
          remaining = max 0 (ceil1000 (endTime - now));
          expectedElapsed = floor1000 totalElapsed;
          increment = expectedElapsed - elapsedIntervals;
          r1 = (if increment > 0 \<and> remaining > 0
                then addTime name increment
                       (s\<lparr>intervals := map (\<lambda>(i, cb). if i = h
                                 then (i, Countdown name startTime endTime expectedElapsed)
                                 else (i, cb)) (intervals s)\<rparr>)
                else Inr s)
      in case r1 of
           Inl e \<Rightarrow> Inl e
         | Inr s1 \<Rightarrow> if now \<ge> endTime then Inr (complete name s1) else Inr s1)"

text \<open>The window runs the callback of a live interval; a cleared interval never fires.\<close>

definition fire :: "nat \<Rightarrow> int \<Rightarrow> hook \<Rightarrow> error + hook" where
  "fire h now s =
     (case map_of (intervals s) h of
        None \<Rightarrow> Inr s
      | Some cb \<Rightarrow> tick h cb now s)"

definition addCategory :: "string \<Rightarrow> string \<Rightarrow> hook \<Rightarrow> bool \<times> hook" where
  "addCategory name col s =
     (if trim name = [] then (False, s)
      else if categories s name \<noteq> None then (False, s)
      else (True, s\<lparr>categories := (categories s)(name \<mapsto> \<lparr>time = Some (Num 0), color = col\<rparr>)\<rparr>))"

text \<open>
  \<open>editCategory\<close>: \<open>{ ...updated[oldName] }\<close> is the old entry, or the empty object when
  there is none; then the colour is set.
\<close>

definition editCategory :: "string \<Rightarrow> string \<Rightarrow> string \<Rightarrow> hook \<Rightarrow> bool \<times> hook" where
  "editCategory oldName newName newColor s =
     (if trim oldName = [] \<or> trim newName = [] then (False, s)
      else if oldName \<noteq> newName \<and> categories s newName \<noteq> None then (False, s)
      else
        (let categoryData =
               (case categories s oldName of
                  None \<Rightarrow> \<lparr>time = None, color = newColor\<rparr>
                | Some c \<Rightarrow> c\<lparr>color := newColor\<rparr>)
         in if oldName \<noteq> newName
            then (True, s\<lparr>categories := ((categories s)(oldName := None))(newName \<mapsto> categoryData),
                          activeCategory := (if activeCategory s = Some oldName then Some newName
                                             else activeCategory s)\<rparr>)
            else (True, s\<lparr>categories := (categories s)(oldName \<mapsto> categoryData)\<rparr>)))"

definition deleteCategory :: "string \<Rightarrow> hook \<Rightarrow> bool \<times> hook" where
  "deleteCategory name s =
     (if trim name = [] \<or> categories s name = None then (False, s)
      else
        (let s1 = (if activeCategory s = Some name then stopActive s else s)
         in (True, s1\<lparr>categories := (categories s1)(name := None)\<rparr>)))"

text \<open>
  A run of the hook: the calls of the user interface and the firings of intervals, in the
  order in which they happen. A run ends at the first exception.
\<close>

datatype event =
    StartCategory string
  | StartTimer string int int
  | StopActive
  | Fire nat int
  | AddCategory string string
  | EditCategory string string string
  | DeleteCategory string

fun step :: "event \<Rightarrow> hook \<Rightarrow> error + hook" where
  "step (StartCategory name) s = Inr (startCategory name s)"
| "step (StartTimer name seconds now) s = Inr (startTimer name seconds now s)"
| "step StopActive s = Inr (stopActive s)"
| "step (Fire h now) s = fire h now s"
| "step (AddCategory name col) s = Inr (snd (addCategory name col s))"
| "step (EditCategory oldName newName newColor) s = Inr (snd (editCategory oldName newName newColor s))"
| "step (DeleteCategory name) s = Inr (snd (deleteCategory name s))"

fun run :: "event list \<Rightarrow> hook \<Rightarrow> error + hook" where
  "run [] s = Inr s"
| "run (e # es) s = (case step e s of Inl err \<Rightarrow> Inl err | Inr s1 \<Rightarrow> run es s1)"

text \<open>
  The interval \<open>h\<close> of \<open>startTimer\<close> (period 100 ms) firing on time: \<open>n\<close> firings, the
  first one 100 ms after the clock reading \<open>0\<close>.
\<close>

definition every100ms :: "nat \<Rightarrow> nat \<Rightarrow> event list" where
  "every100ms h n = map (\<lambda>k. Fire h (100 * int k)) [1..<Suc n]"

text \<open>The time of a category at the end of a run, if the run ends without exception.\<close>

definition timeAfter :: "string \<Rightarrow> error + hook \<Rightarrow> number option" where
  "timeAfter name r =
     (case r of
        Inl e \<Rightarrow> None
      | Inr s \<Rightarrow> (case categories s name of None \<Rightarrow> None | Some c \<Rightarrow> time c))"

text \<open>
  Two running sessions: a stopwatch on \<open>Reading\<close> just started, and a countdown of 10
  seconds on \<open>Work\<close>, started at clock reading \<open>0\<close>, whose interval has fired once, at
  1500 ms.
\<close>

definition stopwatchRunning :: hook where
  "stopwatchRunning =
     startCategory ''Reading'' (initial [''Reading'' \<mapsto> \<lparr>time = Some (Num 0), color = ''#4C8BF5''\<rparr>])"

definition countdownRunning :: hook where
  "countdownRunning =
     projr (run [StartTimer ''Work'' 10 0, Fire 1 1500]
              (initial [''Work'' \<mapsto> \<lparr>time = Some (Num 0), color = ''#9C27B0''\<rparr>]))"

text \<open>The exception that ends a run, if any.\<close>

definition exception :: "error + 'a \<Rightarrow> error option" where
  "exception r = (case r of Inl e \<Rightarrow> Some e | Inr x \<Rightarrow> None)"

text \<open>The state at the end of a run, if the run ends without exception.\<close>

definition projr_option :: "error + 'a \<Rightarrow> 'a option" where
  "projr_option r = (case r of Inl e \<Rightarrow> None | Inr x \<Rightarrow> Some x)"

text \<open>
  The invariant of the hook: the window's live intervals are exactly the one in
  \<open>intervalRef\<close>, if any, and a category is active exactly when an interval is live.
\<close>

definition one_session :: "hook \<Rightarrow> bool" where
  "one_session s =
     (map fst (intervals s) = (case intervalRef s of None \<Rightarrow> [] | Some h \<Rightarrow> [h])
      \<and> intervalRef s \<noteq> Some 0
      \<and> nextHandle s \<noteq> 0
      \<and> ((activeCategory s = None) = (intervals s = [])))"

section \<open>JSON values and \<open>localStorage\<close>\<close>

text \<open>
  What \<open>JSON.parse\<close> returns: numbers are integers, and the members of an object are
  listed in the order in which the object enumerates them (\<open>JSON.parse\<close> keeps one member
  for a name). A property that an object does not have reads as \<open>undefined\<close>, which is
  \<open>None\<close> in a \<open>json option\<close>.
\<close>

datatype json =
    JNull
  | JBool bool
  | JNum int
  | JStr string
  | JArr "json list"
  | JObj "(string \<times> json) list"

text \<open>
  \<open>JSON.parse\<close> and \<open>JSON.stringify\<close> belong to the JavaScript runtime. The code reads a
  stored or imported string in two ways only: it tests it for truthiness, and it hands it to
  \<open>JSON.parse\<close>. A string is therefore modelled by what these two make of it: the empty
  string, a non-empty string that \<open>JSON.parse\<close> rejects, or a JSON text, given by the value
  that \<open>JSON.parse\<close> returns for it. \<open>JSON.stringify\<close> writes a text of its argument, with
  or without indentation.
\<close>

datatype document = EmptyString | Malformed | Document json

fun JSON_parse :: "document \<Rightarrow> error + json" where
  "JSON_parse (Document v) = Inr v"
| "JSON_parse EmptyString = Inl SyntaxError"
| "JSON_parse Malformed = Inl SyntaxError"

definition JSON_stringify :: "json \<Rightarrow> document" where
  "JSON_stringify v = Document v"

text \<open>
  \<open>localStorage\<close> maps keys to strings; \<open>getItem\<close> returns \<open>null\<close> (\<open>None\<close>) for a key
  without an item. Reading and writing the storage itself always succeeds in the model.
\<close>

type_synonym localStorage = "string \<rightharpoonup> document"

abbreviation STORAGE_KEY :: string where
  "STORAGE_KEY \<equiv> ''goodWorksData''"

abbreviation WEEKLY_KEY :: string where
  "WEEKLY_KEY \<equiv> ''goodWorksWeekly''"

definition getItem :: "string \<Rightarrow> localStorage \<Rightarrow> document option" where
  "getItem k ls = ls k"

definition setItem :: "string \<Rightarrow> document \<Rightarrow> localStorage \<Rightarrow> localStorage" where
  "setItem k v ls = ls(k \<mapsto> v)"

definition removeItem :: "string \<Rightarrow> localStorage \<Rightarrow> localStorage" where
  "removeItem k ls = ls(k := None)"

text \<open>Truthiness of what \<open>getItem\<close> returns: \<open>null\<close> and the empty string are falsy.\<close>

fun nonempty :: "document option \<Rightarrow> bool" where
  "nonempty None = False"
| "nonempty (Some EmptyString) = False"
| "nonempty (Some Malformed) = True"
| "nonempty (Some (Document v)) = True"

text \<open>Truthiness of a value: \<open>undefined\<close>, \<open>null\<close>, \<open>false\<close>, \<open>0\<close> and \<open>""\<close> are falsy.\<close>

fun truthy :: "json option \<Rightarrow> bool" where
  "truthy None = False"
| "truthy (Some JNull) = False"
| "truthy (Some (JBool b)) = b"
| "truthy (Some (JNum n)) = (n \<noteq> 0)"
| "truthy (Some (JStr s)) = (s \<noteq> [])"
| "truthy (Some (JArr xs)) = True"
| "truthy (Some (JObj kvs)) = True"

text \<open>
  \<open>v.k\<close> for the property names that the code reads (\<open>date\<close>, \<open>categories\<close>, \<open>time\<close>,
  \<open>version\<close>, \<open>currentDay\<close>, \<open>archiveData\<close>): a member of an object, \<open>undefined\<close> on
  every other value, and a \<open>TypeError\<close> on \<open>null\<close> and \<open>undefined\<close>.
\<close>

fun lookup :: "json \<Rightarrow> string \<Rightarrow> json option" where
  "lookup (JObj kvs) k = map_of kvs k"
| "lookup v k = None"

fun property :: "json option \<Rightarrow> string \<Rightarrow> error + json option" where
  "property None k = Inl TypeError"
| "property (Some JNull) k = Inl TypeError"
| "property (Some v) k = Inr (lookup v k)"

fun Object_values :: "json option \<Rightarrow> error + json list" where
  "Object_values None = Inl TypeError"
| "Object_values (Some JNull) = Inl TypeError"
| "Object_values (Some (JObj kvs)) = Inr (map snd kvs)"
| "Object_values (Some (JArr xs)) = Inr xs"
| "Object_values (Some (JStr s)) = Inr (map (\<lambda>c. JStr [c]) s)"
| "Object_values (Some v) = Inr []"

text \<open>
  \<open>v > k\<close> for a number \<open>k\<close> compares \<open>ToNumber(v)\<close> with \<open>k\<close>, and is false when that
  is \<open>NaN\<close> (\<open>None\<close>). \<open>ToNumber\<close> reads \<open>null\<close> as \<open>0\<close>, a boolean as \<open>0\<close> or \<open>1\<close>, a
  string by \<open>StringToNumber\<close> and an array by its \<open>ToString\<close>. As numbers are integers
  here, \<open>StringToNumber\<close> reads the decimal integers (with a sign, between white space) and
  the empty string; a numeric string in another notation denotes no number of the model.
\<close>

fun digits :: "nat \<Rightarrow> string" where
  "digits n = (if n < 10 then [char_of (48 + n)] else digits (n div 10) @ [char_of (48 + n mod 10)])"

definition digit :: "char \<Rightarrow> bool" where
  "digit c = (48 \<le> (of_char c :: nat) \<and> (of_char c :: nat) \<le> 57)"

definition StrUnsignedDecimalLiteral :: "string \<Rightarrow> int option" where
  "StrUnsignedDecimalLiteral s =
     (if s \<noteq> [] \<and> list_all digit s
      then Some (foldl (\<lambda>a c. 10 * a + (int (of_char c) - 48)) 0 s)
      else None)"

definition StringToNumber :: "string \<Rightarrow> int option" where
  "StringToNumber s =
     (case trim s of
        [] \<Rightarrow> Some 0
      | c # r \<Rightarrow>
          if c = CHR ''-'' then map_option uminus (StrUnsignedDecimalLiteral r)
          else if c = CHR ''+'' then StrUnsignedDecimalLiteral r
          else StrUnsignedDecimalLiteral (c # r))"

fun join :: "string list \<Rightarrow> string" where
  "join [] = []"
| "join [x] = x"
| "join (x # y # ys) = x @ '','' @ join (y # ys)"

fun ToString :: "json \<Rightarrow> string" where
  "ToString JNull = ''null''"
| "ToString (JBool b) = (if b then ''true'' else ''false'')"
| "ToString (JNum n) = (if n < 0 then ''-'' @ digits (nat (- n)) else digits (nat n))"
| "ToString (JStr s) = s"
| "ToString (JArr xs) = join (map (\<lambda>x. if x = JNull then [] else ToString x) xs)"
| "ToString (JObj kvs) = ''[object Object]''"

fun ToNumber :: "json option \<Rightarrow> int option" where
  "ToNumber None = None"
| "ToNumber (Some JNull) = Some 0"
| "ToNumber (Some (JBool b)) = Some (if b then 1 else 0)"
| "ToNumber (Some (JNum n)) = Some n"
| "ToNumber (Some (JStr s)) = StringToNumber s"
| "ToNumber (Some (JArr xs)) = StringToNumber (ToString (JArr xs))"
| "ToNumber (Some (JObj kvs)) = None"

definition greater :: "json option \<Rightarrow> int \<Rightarrow> bool" where
  "greater v k = (case ToNumber v of None \<Rightarrow> False | Some n \<Rightarrow> n > k)"

text \<open>
  \<open>Array.prototype.some\<close> with a callback that may throw: the elements are tried in order,
  up to the first one for which the callback holds.
\<close>

fun array_some :: "(json \<Rightarrow> error + bool) \<Rightarrow> json list \<Rightarrow> error + bool" where
  "array_some p [] = Inr False"
| "array_some p (x # xs) =
     (case p x of
        Inl e \<Rightarrow> Inl e
      | Inr b \<Rightarrow> if b then Inr True else array_some p xs)"

section \<open>The storage functions\<close>

text \<open>
  What \<open>JSON.stringify\<close> followed by \<open>JSON.parse\<close> makes of a record of the declared
  types: a missing \<open>time\<close> is left out, and \<open>NaN\<close> is written as \<open>null\<close>.
\<close>

definition CategoryData_json :: "CategoryData \<Rightarrow> json" where
  "CategoryData_json c =
     JObj ((case time c of
              None \<Rightarrow> []
            | Some (Num n) \<Rightarrow> [(''time'', JNum n)]
            | Some NaN \<Rightarrow> [(''time'', JNull)])
           @ [(''color'', JStr (color c))])"

definition DayData_json :: "DayData \<Rightarrow> json" where
  "DayData_json d =
     JObj [(''date'', JStr (date d)),
           (''categories'', JObj (map (\<lambda>(name, c). (name, CategoryData_json c)) (DayData.categories d)))]"

text \<open>The callback \<open>cat => cat.time > 0\<close> of \<open>archiveDay\<close>.\<close>

definition timePositive :: "json \<Rightarrow> error + bool" where
  "timePositive cat =
     (case property (Some cat) ''time'' of
        Inl e \<Rightarrow> Inl e
      | Inr t \<Rightarrow> Inr (greater t 0))"

text \<open>
  On a record of the declared types: at least one category has \<open>time > 0\<close>; and the
  invariant \<open>time >= 0\<close> of the data model.
\<close>

definition someTimePositive :: "DayData \<Rightarrow> bool" where
  "someTimePositive d = (\<exists>(name, c) \<in> set (DayData.categories d). positive (time c))"

fun nonnegative :: "number option \<Rightarrow> bool" where
  "nonnegative (Some (Num a)) = (a \<ge> 0)"
| "nonnegative x = False"

text \<open>
  \<open>archiveDay\<close>. Only the \<open>JSON.parse\<close> of the stored log is inside \<open>try\<close>; \<open>weekly.push\<close> on
  a value that is no array is a \<open>TypeError\<close>. Every exception of \<open>archiveDay\<close> is raised
  before its first write, so a result \<open>Inl\<close> leaves the storage as it was.
\<close>

definition archiveDay :: "json \<Rightarrow> localStorage \<Rightarrow> error + localStorage" where
  "archiveDay dayData ls =
     (case property (Some dayData) ''categories'' of
        Inl e \<Rightarrow> Inl e
      | Inr cats \<Rightarrow>
     (case Object_values cats of
        Inl e \<Rightarrow> Inl e
      | Inr values \<Rightarrow>
     (case array_some timePositive values of
        Inl e \<Rightarrow> Inl e
      | Inr hasActivity \<Rightarrow>
          if hasActivity then
            (let weeklyRaw = getItem WEEKLY_KEY ls;
                 weekly = (if nonempty weeklyRaw
                           then (case JSON_parse (the weeklyRaw) of
                                   Inl e \<Rightarrow> JArr []
                                 | Inr v \<Rightarrow> v)
                           else JArr [])
             in case weekly of
                  JArr days \<Rightarrow>
                    (let pushed = days @ [dayData];
                         kept = (if length pushed > 365
                                 then drop (length pushed - 365) pushed
                                 else pushed)
                     in Inr (removeItem STORAGE_KEY
                               (setItem WEEKLY_KEY (JSON_stringify (JArr kept)) ls)))
                | _ \<Rightarrow> Inl TypeError)
          else Inr (removeItem STORAGE_KEY ls))))"

text \<open>
  \<open>loadTodayData\<close>, when \<open>new Date().toDateString()\<close> is \<open>today\<close>. It returns the categories
  (whatever value the stored record has there) and the storage it leaves. The
  \<open>JSON.parse\<close> is not inside a \<open>try\<close>.
\<close>

definition loadTodayData :: "string \<Rightarrow> localStorage \<Rightarrow> error + (json option \<times> localStorage)" where
  "loadTodayData today ls =
     (let raw = getItem STORAGE_KEY ls
      in if nonempty raw then
           (case JSON_parse (the raw) of
              Inl e \<Rightarrow> Inl e
            | Inr parsed \<Rightarrow>
           (case property (Some parsed) ''date'' of
              Inl e \<Rightarrow> Inl e
            | Inr d \<Rightarrow>
                if d \<noteq> Some (JStr today) then
                  (case archiveDay parsed ls of
                     Inl e \<Rightarrow> Inl e
                   | Inr ls1 \<Rightarrow> Inr (Some (JObj []), ls1))
                else
                  (case property (Some parsed) ''categories'' of
                     Inl e \<Rightarrow> Inl e
                   | Inr cats \<Rightarrow> Inr (cats, ls))))
         else Inr (Some (JObj []), ls))"

definition loadWeeklyData :: "localStorage \<Rightarrow> json" where
  "loadWeeklyData ls =
     (let weeklyRaw = getItem WEEKLY_KEY ls
      in if nonempty weeklyRaw then
           (case JSON_parse (the weeklyRaw) of
              Inr v \<Rightarrow> v
            | Inl e \<Rightarrow> JArr [])
         else JArr [])"

text \<open>
  \<open>exportDataToJson\<close>, when \<open>new Date().toISOString()\<close> is \<open>exportDate\<close>: the result and the
  contents of the file that is offered for download, if any.
\<close>

definition exportDataToJson :: "string \<Rightarrow> localStorage \<Rightarrow> bool \<times> document option" where
  "exportDataToJson exportDate ls =
     (let currentDay = getItem STORAGE_KEY ls;
          archiveData = getItem WEEKLY_KEY ls
      in case (if nonempty currentDay then JSON_parse (the currentDay) else Inr JNull) of
           Inl e \<Rightarrow> (False, None)
         | Inr cd \<Rightarrow>
        (case (if nonempty archiveData then JSON_parse (the archiveData) else Inr (JArr [])) of
           Inl e \<Rightarrow> (False, None)
         | Inr ad \<Rightarrow>
             (True, Some (JSON_stringify
                (JObj [(''version'', JNum 1), (''exportDate'', JStr exportDate),
                       (''currentDay'', cd), (''archiveData'', ad)])))))"

text \<open>\<open>typeof v === 'object'\<close> and \<open>Array.isArray(v)\<close>.\<close>

fun typeof_object :: "json \<Rightarrow> bool" where
  "typeof_object JNull = True"
| "typeof_object (JArr xs) = True"
| "typeof_object (JObj kvs) = True"
| "typeof_object v = False"

fun Array_isArray :: "json option \<Rightarrow> bool" where
  "Array_isArray (Some (JArr xs)) = True"
| "Array_isArray v = False"

text \<open>
  \<open>importDataFromJson\<close>: the result and the storage it leaves. Every exception is caught
  and gives \<open>false\<close>. After the validation \<open>parsedData\<close> is not \<open>null\<close>, so its properties
  are read with \<open>lookup\<close>.
\<close>

definition importDataFromJson :: "document \<Rightarrow> localStorage \<Rightarrow> bool \<times> localStorage" where
  "importDataFromJson jsonData ls =
     (case JSON_parse jsonData of
        Inl e \<Rightarrow> (False, ls)
      | Inr parsedData \<Rightarrow>
          if \<not> truthy (Some parsedData) \<or> \<not> typeof_object parsedData then (False, ls)
          else
            (let version = (if truthy (lookup parsedData ''version'')
                            then lookup parsedData ''version'' else Some (JNum 1))
             in if greater version 1 then (False, ls)
                else
                  (let currentDay = lookup parsedData ''currentDay'';
                       ls1 = (if truthy currentDay
                              then setItem STORAGE_KEY (JSON_stringify (the currentDay)) ls
                              else ls);
                       archiveData = lookup parsedData ''archiveData'';
                       ls2 = (if Array_isArray archiveData
                              then setItem WEEKLY_KEY (JSON_stringify (the archiveData)) ls1
                              else ls1)
                   in (True, ls2))))"

text \<open>
  The historical log after a day is appended at its tail and entries are evicted from its
  head until at most 365 are left.
\<close>

definition appendCapped :: "json list \<Rightarrow> json \<Rightarrow> json list" where
  "appendCapped log day = drop (length (log @ [day]) - 365) (log @ [day])"

text \<open>
  The current-day record that the storage holds: the value of the stored text, if an item
  is there and is a JSON text.
\<close>

definition storedDay :: "localStorage \<Rightarrow> json option" where
  "storedDay ls =
     (if nonempty (getItem STORAGE_KEY ls)
      then projr_option (JSON_parse (the (getItem STORAGE_KEY ls)))
      else None)"

text \<open>
  Records of a day before \<open>Mon Nov 02 2026\<close>, one with ten seconds of work and one
  without activity, and a historical log of 365 days.
\<close>

definition yesterdayActive :: DayData where
  "yesterdayActive =
     \<lparr>date = ''Sun Nov 01 2026'',
      categories = [(''Reading'', \<lparr>time = Some (Num 0), color = ''#4C8BF5''\<rparr>),
                    (''Work'', \<lparr>time = Some (Num 10), color = ''#9C27B0''\<rparr>)]\<rparr>"

definition yesterdayIdle :: DayData where
  "yesterdayIdle =
     \<lparr>date = ''Sun Nov 01 2026'',
      categories = [(''Reading'', \<lparr>time = Some (Num 0), color = ''#4C8BF5''\<rparr>),
                    (''Work'', \<lparr>time = Some (Num 0), color = ''#9C27B0''\<rparr>)]\<rparr>"

definition yearLog :: "json list" where
  "yearLog =
     map (\<lambda>k. DayData_json
                 \<lparr>date = digits k,
                  categories = [(''Work'', \<lparr>time = Some (Num 60), color = ''#9C27B0''\<rparr>)]\<rparr>)
         [0..<365]"

section \<open>One session at a time\<close>

lemma one_session_initial: "one_session (initial cats)"
  by (simp add: one_session_def initial_def)

lemma stopActive_clears:
  assumes "one_session s"
  shows "intervals (stopActive s) = []" and "intervalRef (stopActive s) = None"
    and "activeCategory (stopActive s) = None" and "nextHandle (stopActive s) = nextHandle s"
    and "categories (stopActive s) = categories s"
  using assms
  by (auto simp: one_session_def stopActive_def clearInterval_def Let_def split: option.splits)

lemma one_session_stopActive: "one_session s \<Longrightarrow> one_session (stopActive s)"
  using stopActive_clears [of s] by (simp add: one_session_def)

lemma startCategory_session:
  assumes "one_session s"
  shows "intervals (startCategory name s) = [(nextHandle s, Stopwatch name)]"
    and "intervalRef (startCategory name s) = Some (nextHandle s)"
    and "activeCategory (startCategory name s) = Some name"
    and "nextHandle (startCategory name s) = Suc (nextHandle s)"
  using stopActive_clears [OF assms]
  by (simp_all add: startCategory_def setInterval_def Let_def)

lemma one_session_startCategory: "one_session s \<Longrightarrow> one_session (startCategory name s)"
  using startCategory_session [of s name] by (simp add: one_session_def)

lemma startTimer_session:
  assumes "one_session s"
  shows "intervals (startTimer name seconds now s) =
           [(nextHandle s, Countdown name now (now + seconds * 1000) 0)]"
    and "intervalRef (startTimer name seconds now s) = Some (nextHandle s)"
    and "activeCategory (startTimer name seconds now s) = Some name"
    and "nextHandle (startTimer name seconds now s) = Suc (nextHandle s)"
  using stopActive_clears [OF assms]
  by (simp_all add: startTimer_def setInterval_def Let_def)

lemma one_session_startTimer: "one_session s \<Longrightarrow> one_session (startTimer name seconds now s)"
  using startTimer_session [of s name seconds now] by (simp add: one_session_def)

lemma addTime_frame:
  assumes "addTime name k s = Inr s1"
  shows "intervals s1 = intervals s" and "intervalRef s1 = intervalRef s"
    and "activeCategory s1 = activeCategory s" and "nextHandle s1 = nextHandle s"
    and "completed s1 = completed s"
  using assms by (auto simp: addTime_def split: option.splits)

lemma one_session_addTime: "one_session s \<Longrightarrow> addTime name k s = Inr s1 \<Longrightarrow> one_session s1"
  using addTime_frame [of name k s s1] by (simp add: one_session_def)

lemma one_session_complete: "one_session s \<Longrightarrow> one_session (complete name s)"
  by (auto simp: one_session_def complete_def clearInterval_def split: option.splits)

lemma one_session_closure:
  "one_session s \<Longrightarrow>
   one_session (s\<lparr>intervals := map (\<lambda>(i, cb). if i = h then (i, c) else (i, cb)) (intervals s)\<rparr>)"
  by (auto simp: one_session_def split: option.splits)

lemma one_session_tick: "one_session s \<Longrightarrow> tick h cb now s = Inr s1 \<Longrightarrow> one_session s1"
proof (cases cb)
  case (Stopwatch name)
  assume "one_session s" "tick h cb now s = Inr s1"
  with Stopwatch show ?thesis by (simp add: one_session_addTime)
next
  case (Countdown name startTime endTime elapsedIntervals)
  assume s: "one_session s" and t: "tick h cb now s = Inr s1"
  from t Countdown s show ?thesis
    by (auto simp: Let_def one_session_complete one_session_closure
          split: if_splits sum.splits
          dest!: one_session_addTime [rotated] intro: one_session_complete)
qed

lemma one_session_fire: "one_session s \<Longrightarrow> fire h now s = Inr s1 \<Longrightarrow> one_session s1"
  by (auto simp: fire_def split: option.splits dest: one_session_tick)

lemma one_session_addCategory: "one_session s \<Longrightarrow> one_session (snd (addCategory name col s))"
  by (simp add: addCategory_def one_session_def)

lemma one_session_editCategory:
  "one_session s \<Longrightarrow> one_session (snd (editCategory oldName newName newColor s))"
  by (auto simp: editCategory_def one_session_def Let_def)

lemma one_session_deleteCategory: "one_session s \<Longrightarrow> one_session (snd (deleteCategory name s))"
  using one_session_stopActive [of s]
  by (auto simp: deleteCategory_def one_session_def Let_def)

lemma one_session_step: "one_session s \<Longrightarrow> step e s = Inr s1 \<Longrightarrow> one_session s1"
  by (cases e)
     (auto simp: one_session_stopActive one_session_startCategory one_session_startTimer
        one_session_addCategory one_session_editCategory one_session_deleteCategory
        dest: one_session_fire)

lemma one_session_run: "one_session s \<Longrightarrow> run es s = Inr s1 \<Longrightarrow> one_session s1"
proof (induction es arbitrary: s)
  case Nil
  then show ?case by simp
next
  case (Cons e es)
  then show ?case
    by (auto split: sum.splits dest: one_session_step)
qed

text \<open>
  Claim C3. After every run of the hook (calls of \<open>startCategory\<close>, \<open>startTimer\<close> and
  \<open>stopActive\<close>, with firings of intervals and edits of the categories between them) at
  most one interval is live, and a category is active exactly when one is. A start call in
  such a state stops the session that is running, if any, and leaves exactly one: the new
  one, on the category named in the call. \<open>stopActive\<close> leaves none.
\<close>

theorem single_session:
  assumes "run es (initial cats) = Inr s"
  shows "length (intervals s) \<le> 1
     \<and> ((activeCategory s = None) = (intervals s = []))
     \<and> map snd (intervals (startCategory name s)) = [Stopwatch name]
     \<and> activeCategory (startCategory name s) = Some name
     \<and> map snd (intervals (startTimer name seconds now s)) =
         [Countdown name now (now + seconds * 1000) 0]
     \<and> activeCategory (startTimer name seconds now s) = Some name
     \<and> intervals (stopActive s) = []
     \<and> activeCategory (stopActive s) = None"
proof -
  have inv: "one_session s"
    using one_session_run [OF one_session_initial assms] .
  have "length (map fst (intervals s)) \<le> 1"
    using inv by (simp add: one_session_def split: option.splits)
  then have "length (intervals s) \<le> 1" by simp
  moreover have "(activeCategory s = None) = (intervals s = [])"
    using inv by (simp add: one_session_def)
  ultimately show ?thesis
    by (simp add: startCategory_session [OF inv] startTimer_session [OF inv]
          stopActive_clears [OF inv])
qed

theorem single_session_witness:
  "run [StartCategory ''Reading'', Fire 1 1000, StartTimer ''Work'' 10 2000]
       (initial [''Reading'' \<mapsto> \<lparr>time = Some (Num 0), color = ''#4C8BF5''\<rparr>,
                 ''Work'' \<mapsto> \<lparr>time = Some (Num 0), color = ''#9C27B0''\<rparr>])
     = Inr \<lparr>categories = [''Reading'' \<mapsto> \<lparr>time = Some (Num 1), color = ''#4C8BF5''\<rparr>,
                           ''Work'' \<mapsto> \<lparr>time = Some (Num 0), color = ''#9C27B0''\<rparr>],
            activeCategory = Some ''Work'', intervalRef = Some 2, timerEndRef = Some 12000,
            intervals = [(2, Countdown ''Work'' 2000 12000 0)], nextHandle = 3, completed = []\<rparr>
   \<and> map snd (intervals (startCategory ''Reading''
         \<lparr>categories = [''Reading'' \<mapsto> \<lparr>time = Some (Num 1), color = ''#4C8BF5''\<rparr>,
                         ''Work'' \<mapsto> \<lparr>time = Some (Num 0), color = ''#9C27B0''\<rparr>],
          activeCategory = Some ''Work'', intervalRef = Some 2, timerEndRef = Some 12000,
          intervals = [(2, Countdown ''Work'' 2000 12000 0)], nextHandle = 3, completed = []\<rparr>))
     = [Stopwatch ''Reading'']"
proof -
  have r: "run [StartCategory ''Reading'', Fire 1 1000, StartTimer ''Work'' 10 2000]
       (initial [''Reading'' \<mapsto> \<lparr>time = Some (Num 0), color = ''#4C8BF5''\<rparr>,
                 ''Work'' \<mapsto> \<lparr>time = Some (Num 0), color = ''#9C27B0''\<rparr>])
     = Inr \<lparr>categories = [''Reading'' \<mapsto> \<lparr>time = Some (Num 1), color = ''#4C8BF5''\<rparr>,
                           ''Work'' \<mapsto> \<lparr>time = Some (Num 0), color = ''#9C27B0''\<rparr>],
            activeCategory = Some ''Work'', intervalRef = Some 2, timerEndRef = Some 12000,
            intervals = [(2, Countdown ''Work'' 2000 12000 0)], nextHandle = 3, completed = []\<rparr>"
    by (simp add: initial_def startCategory_def startTimer_def stopActive_def setInterval_def
          clearInterval_def fire_def addTime_def Let_def fun_upd_twist)
  from single_session [OF r, where name = "''Reading''"] r show ?thesis
    by simp
qed

section \<open>Countdown sessions\<close>

lemma remaining_zero: "endTime \<le> now \<Longrightarrow> max 0 (ceil1000 (endTime - now)) = 0"
  by (simp add: ceil1000_def max_def)

lemma remaining_positive: "now < endTime \<Longrightarrow> 0 < max 0 (ceil1000 (endTime - now))"
proof -
  assume "now < endTime"
  then have "(now - endTime) div 1000 < 0"
    by (simp add: div_neg_pos_less0)
  then show ?thesis
    by (simp add: ceil1000_def)
qed

text \<open>
  The firing that finds the deadline reached credits nothing, whatever time has passed
  since the last credit: the guard \<open>remaining > 0\<close> is false there.
\<close>

lemma tick_at_deadline:
  "endTime \<le> now \<Longrightarrow> tick h (Countdown name startTime endTime e) now s = Inr (complete name s)"
  by (simp add: remaining_zero Let_def)

text \<open>
  A firing before the deadline finds fewer whole seconds elapsed than the countdown
  lasts. Credits are given before the deadline only, so they never add up to the duration.
\<close>

lemma credit_below_duration:
  "now < startTime + seconds * 1000 \<Longrightarrow> floor1000 (now - startTime) < seconds"
  unfolding floor1000_def by linarith

text \<open>
  Claim C1 says that a countdown of \<open>D\<close> seconds that runs to completion credits \<open>D\<close>
  seconds to its category, goes idle, and requests one completion signal. The code goes
  idle and requests one signal, but credits less. For \<open>startTimer("Work", 10)\<close> at clock
  reading \<open>0\<close> with the interval firing every 100 ms, 12 seconds later \<open>Work.time\<close> is
  \<open>9\<close>, no category is active, no interval is live and one signal was requested. When
  the firings between 5.9 s and 12 s are missed, \<open>Work.time\<close> ends at \<open>5\<close>.
\<close>

theorem countdown_loses_final_second:
  "timeAfter ''Work'' (run (StartTimer ''Work'' 10 0 # every100ms 1 120)
       (initial [''Work'' \<mapsto> \<lparr>time = Some (Num 0), color = ''#9C27B0''\<rparr>])) = Some (Num 9)
   \<and> map_option activeCategory (projr_option (run (StartTimer ''Work'' 10 0 # every100ms 1 120)
       (initial [''Work'' \<mapsto> \<lparr>time = Some (Num 0), color = ''#9C27B0''\<rparr>]))) = Some None
   \<and> map_option intervals (projr_option (run (StartTimer ''Work'' 10 0 # every100ms 1 120)
       (initial [''Work'' \<mapsto> \<lparr>time = Some (Num 0), color = ''#9C27B0''\<rparr>]))) = Some []
   \<and> map_option completed (projr_option (run (StartTimer ''Work'' 10 0 # every100ms 1 120)
       (initial [''Work'' \<mapsto> \<lparr>time = Some (Num 0), color = ''#9C27B0''\<rparr>]))) = Some [''Work'']
   \<and> timeAfter ''Work'' (run (StartTimer ''Work'' 10 0 # every100ms 1 59 @ [Fire 1 12000])
       (initial [''Work'' \<mapsto> \<lparr>time = Some (Num 0), color = ''#9C27B0''\<rparr>])) = Some (Num 5)"
  by code_simp

section \<open>What a firing credits\<close>

lemma map_of_closure:
  "map_of xs h = Some cb \<Longrightarrow>
   map_of (map (\<lambda>(i, cb). if i = h then (i, c) else (i, cb)) xs) h = Some c"
  by (induction xs) (auto split: if_splits)

lemma stopwatch_fire:
  assumes "map_of (intervals s) h = Some (Stopwatch name)" and "categories s name = Some c"
  shows "fire h now s =
           Inr (s\<lparr>categories := (categories s)(name \<mapsto> c\<lparr>time := Some (js_add (time c) (Some (Num 1)))\<rparr>)\<rparr>)"
  using assms by (simp add: fire_def addTime_def)

lemma countdown_fire_before_deadline:
  assumes "map_of (intervals s) h = Some (Countdown name startTime endTime e)"
    and "categories s name = Some c" and "now < endTime"
  shows "fire h now s =
           Inr (if e < floor1000 (now - startTime)
                then s\<lparr>intervals := map (\<lambda>(i, cb). if i = h
                                 then (i, Countdown name startTime endTime (floor1000 (now - startTime)))
                                 else (i, cb)) (intervals s),
                       categories := (categories s)(name \<mapsto>
                          c\<lparr>time := Some (js_add (time c) (Some (Num (floor1000 (now - startTime) - e))))\<rparr>)\<rparr>
                else s)"
  using assms remaining_positive [of now endTime]
  by (simp add: fire_def addTime_def Let_def)

text \<open>
  Claim C2 says that in every running session a firing credits the whole seconds of wall
  clock time since the firing before. The callback of a stopwatch session does not read the
  clock: when the stopwatch on \<open>Reading\<close> fires at 1000 ms and, delayed, again at
  6000 ms, the second firing credits one second, not five, and the time is \<open>2\<close>.
\<close>

theorem stopwatch_counts_callbacks:
  "timeAfter ''Reading'' (run [Fire 1 1000] stopwatchRunning) = Some (Num 1)
   \<and> timeAfter ''Reading'' (run [Fire 1 1000, Fire 1 6000] stopwatchRunning) = Some (Num 2)
   \<and> timeAfter ''Reading'' (run [Fire 1 1000, Fire 1 6000] stopwatchRunning)
       \<noteq> Some (Num (1 + floor1000 (6000 - 1000)))"
  by code_simp

lemma countdownRunning_eq:
  "countdownRunning =
     \<lparr>categories = [''Work'' \<mapsto> \<lparr>time = Some (Num 1), color = ''#9C27B0''\<rparr>],
      activeCategory = Some ''Work'', intervalRef = Some 1, timerEndRef = Some 10000,
      intervals = [(1, Countdown ''Work'' 0 10000 1)], nextHandle = 2, completed = []\<rparr>"
  by (simp add: countdownRunning_def initial_def startTimer_def stopActive_def setInterval_def
        fire_def addTime_def Let_def floor1000_def ceil1000_def)

lemma stopwatchRunning_eq:
  "stopwatchRunning =
     \<lparr>categories = [''Reading'' \<mapsto> \<lparr>time = Some (Num 0), color = ''#4C8BF5''\<rparr>],
      activeCategory = Some ''Reading'', intervalRef = Some 1, timerEndRef = None,
      intervals = [(1, Stopwatch ''Reading'')], nextHandle = 2, completed = []\<rparr>"
  by (simp add: stopwatchRunning_def initial_def startCategory_def stopActive_def setInterval_def
        Let_def)

text \<open>
  Claim C2, as amended. In a stopwatch session every firing credits exactly one second,
  whatever the clock reads. In a countdown session a firing before the deadline credits
  the whole seconds since the start that were not credited yet: when the firing before
  it came at \<open>prev\<close> (the start itself, for the first firing), the credit is
  \<open>floor ((now - startTime) / 1000) - floor ((prev - startTime) / 1000)\<close>, so the part of
  a second left over at \<open>prev\<close> counts towards the next credit and is counted once, and
  the closure then holds the seconds credited up to \<open>now\<close>.
\<close>

theorem tick_credit:
  "(map_of (intervals s) h = Some (Stopwatch name) \<and> categories s name = Some c
      \<and> time c = Some (Num t)
    \<longrightarrow> timeAfter name (fire h now s) = Some (Num (t + 1)))
   \<and> (map_of (intervals s) h = Some (Countdown name startTime endTime (floor1000 (prev - startTime)))
      \<and> categories s name = Some c \<and> time c = Some (Num t) \<and> prev \<le> now \<and> now < endTime
    \<longrightarrow> timeAfter name (fire h now s)
          = Some (Num (t + (floor1000 (now - startTime) - floor1000 (prev - startTime))))
        \<and> map_option (\<lambda>s1. map_of (intervals s1) h) (projr_option (fire h now s))
          = Some (Some (Countdown name startTime endTime (floor1000 (now - startTime)))))"
proof (intro conjI impI)
  assume "map_of (intervals s) h = Some (Stopwatch name) \<and> categories s name = Some c
      \<and> time c = Some (Num t)"
  then show "timeAfter name (fire h now s) = Some (Num (t + 1))"
    by (simp add: stopwatch_fire timeAfter_def)
next
  assume a: "map_of (intervals s) h = Some (Countdown name startTime endTime (floor1000 (prev - startTime)))
      \<and> categories s name = Some c \<and> time c = Some (Num t) \<and> prev \<le> now \<and> now < endTime"
  then have le: "floor1000 (prev - startTime) \<le> floor1000 (now - startTime)"
    by (simp add: floor1000_def zdiv_mono1)
  from a have f: "fire h now s =
           Inr (if floor1000 (prev - startTime) < floor1000 (now - startTime)
                then s\<lparr>intervals := map (\<lambda>(i, cb). if i = h
                                 then (i, Countdown name startTime endTime (floor1000 (now - startTime)))
                                 else (i, cb)) (intervals s),
                       categories := (categories s)(name \<mapsto>
                          c\<lparr>time := Some (js_add (time c)
                             (Some (Num (floor1000 (now - startTime) - floor1000 (prev - startTime)))))\<rparr>)\<rparr>
                else s)"
    by (simp add: countdown_fire_before_deadline)
  show "timeAfter name (fire h now s)
          = Some (Num (t + (floor1000 (now - startTime) - floor1000 (prev - startTime))))"
    using a le by (simp add: f timeAfter_def)
  show "map_option (\<lambda>s1. map_of (intervals s1) h) (projr_option (fire h now s))
          = Some (Some (Countdown name startTime endTime (floor1000 (now - startTime))))"
    using a le by (auto simp: f projr_option_def map_of_closure)
qed

theorem tick_credit_witness:
  "(map_of (intervals stopwatchRunning) 1 = Some (Stopwatch ''Reading'')
      \<and> categories stopwatchRunning ''Reading'' = Some \<lparr>time = Some (Num 0), color = ''#4C8BF5''\<rparr>
      \<and> time \<lparr>time = Some (Num 0), color = ''#4C8BF5''\<rparr> = Some (Num 0))
   \<and> timeAfter ''Reading'' (fire 1 5000 stopwatchRunning) = Some (Num 1)
   \<and> (map_of (intervals countdownRunning) 1 = Some (Countdown ''Work'' 0 10000 (floor1000 (1500 - 0)))
      \<and> categories countdownRunning ''Work'' = Some \<lparr>time = Some (Num 1), color = ''#9C27B0''\<rparr>
      \<and> time \<lparr>time = Some (Num 1), color = ''#9C27B0''\<rparr> = Some (Num 1)
      \<and> (1500::int) \<le> 3700 \<and> (3700::int) < 10000)
   \<and> timeAfter ''Work'' (fire 1 3700 countdownRunning) = Some (Num 3)"
proof -
  have h1: "map_of (intervals stopwatchRunning) 1 = Some (Stopwatch ''Reading'')
      \<and> categories stopwatchRunning ''Reading'' = Some \<lparr>time = Some (Num 0), color = ''#4C8BF5''\<rparr>
      \<and> time \<lparr>time = Some (Num 0), color = ''#4C8BF5''\<rparr> = Some (Num 0)"
    by (simp add: stopwatchRunning_eq)
  have h2: "map_of (intervals countdownRunning) 1 = Some (Countdown ''Work'' 0 10000 (floor1000 (1500 - 0)))
      \<and> categories countdownRunning ''Work'' = Some \<lparr>time = Some (Num 1), color = ''#9C27B0''\<rparr>
      \<and> time \<lparr>time = Some (Num 1), color = ''#9C27B0''\<rparr> = Some (Num 1)
      \<and> (1500::int) \<le> 3700 \<and> (3700::int) < 10000"
    by (simp add: countdownRunning_eq floor1000_def)
  have c1: "timeAfter ''Reading'' (fire 1 5000 stopwatchRunning) = Some (Num (0 + 1))"
    using tick_credit [of stopwatchRunning 1 "''Reading''"
        "\<lparr>time = Some (Num 0), color = ''#4C8BF5''\<rparr>" 0 5000] h1
    by blast
  have c2: "timeAfter ''Work'' (fire 1 3700 countdownRunning)
      = Some (Num (1 + (floor1000 (3700 - 0) - floor1000 (1500 - 0))))"
    using tick_credit [of countdownRunning 1 "''Work''"
        "\<lparr>time = Some (Num 1), color = ''#9C27B0''\<rparr>" 1 3700 0 10000 1500] h2
    by blast
  from h1 h2 c1 c2 show ?thesis
    by (simp add: floor1000_def)
qed

section \<open>Firings on a category that is gone\<close>

lemma tick_absent_stopwatch:
  "categories s name = None \<Longrightarrow> tick h (Stopwatch name) now s = Inl TypeError"
  by (simp add: addTime_def)

lemma tick_absent_countdown:
  "categories s name = None \<Longrightarrow> now < endTime \<Longrightarrow> e < floor1000 (now - startTime) \<Longrightarrow>
   tick h (Countdown name startTime endTime e) now s = Inl TypeError"
  by (simp add: addTime_def Let_def remaining_positive)

text \<open>
  Claim C8 says that a firing whose category is no longer in the store changes nothing
  and raises nothing. The state updater of the callbacks reads \<open>prev[name].time\<close> without
  a check, which is a \<open>TypeError\<close> when the entry is gone. Renaming the active category
  leads there: \<open>editCategory\<close> moves the entry and the active category to the new name, and
  the live interval still closes over the old one. So after \<open>startCategory("A")\<close> and
  \<open>editCategory("A", "B", "#fff")\<close> the next firing raises, and likewise for a countdown.
\<close>

theorem tick_after_rename_throws:
  "exception (run [StartCategory ''A'', EditCategory ''A'' ''B'' ''#fff'', Fire 1 1000]
     (initial [''A'' \<mapsto> \<lparr>time = Some (Num 0), color = ''#000''\<rparr>])) = Some TypeError
   \<and> exception (run [StartTimer ''A'' 60 0, EditCategory ''A'' ''B'' ''#fff'', Fire 1 1000]
     (initial [''A'' \<mapsto> \<lparr>time = Some (Num 0), color = ''#000''\<rparr>])) = Some TypeError"
  by code_simp

section \<open>Renaming a category\<close>

lemma editCategory_duplicate:
  "oldName \<noteq> newName \<Longrightarrow> categories s newName \<noteq> None \<Longrightarrow>
   editCategory oldName newName newColor s = (False, s)"
  by (simp add: editCategory_def)

lemma editCategory_success:
  assumes "trim oldName \<noteq> []" and "trim newName \<noteq> []"
    and "oldName = newName \<or> categories s newName = None"
    and "categories s oldName = Some c"
  shows "fst (editCategory oldName newName newColor s) = True"
    and "categories (snd (editCategory oldName newName newColor s)) newName = Some (c\<lparr>color := newColor\<rparr>)"
    and "oldName \<noteq> newName \<Longrightarrow> categories (snd (editCategory oldName newName newColor s)) oldName = None"
    and "activeCategory s = Some oldName \<Longrightarrow>
           activeCategory (snd (editCategory oldName newName newColor s)) = Some newName"
  using assms by (auto simp: editCategory_def Let_def)

lemma editCategory_absent:
  assumes "trim oldName \<noteq> []" and "trim newName \<noteq> []"
    and "categories s newName = None" and "categories s oldName = None"
  shows "fst (editCategory oldName newName newColor s) = True"
    and "categories (snd (editCategory oldName newName newColor s)) newName
           = Some \<lparr>time = None, color = newColor\<rparr>"
  using assms by (auto simp: editCategory_def Let_def)

lemma deleteCategory_absent: "categories s name = None \<Longrightarrow> deleteCategory name s = (False, s)"
  by (simp add: deleteCategory_def)

text \<open>
  Claim C7 says that renaming fails and leaves the store unchanged when \<open>oldName\<close> is not
  in the store. \<open>editCategory\<close> checks for blank names and for a taken \<open>newName\<close>, but not
  for a missing \<open>oldName\<close> (\<open>deleteCategory\<close> does check): on a store without \<open>A\<close> and
  \<open>B\<close>, \<open>editCategory("A", "B", "#fff")\<close> returns \<open>true\<close> and adds an entry \<open>B\<close> that has
  a colour and no time.
\<close>

theorem rename_absent_succeeds:
  "fst (editCategory ''A'' ''B'' ''#fff'' (initial [''X'' \<mapsto> \<lparr>time = Some (Num 5), color = ''#000''\<rparr>])) = True
   \<and> categories (snd (editCategory ''A'' ''B'' ''#fff'' (initial [''X'' \<mapsto> \<lparr>time = Some (Num 5), color = ''#000''\<rparr>]))) ''B''
       = Some \<lparr>time = None, color = ''#fff''\<rparr>
   \<and> categories (initial [''X'' \<mapsto> \<lparr>time = Some (Num 5), color = ''#000''\<rparr>]) ''B'' = None"
  by code_simp

section \<open>Archiving a day\<close>

lemma timePositive_CategoryData: "timePositive (CategoryData_json c) = Inr (positive (time c))"
  by (simp add: timePositive_def CategoryData_json_def greater_def
        split: option.splits number.splits)

lemma array_some_categories:
  "array_some timePositive (map (snd \<circ> (\<lambda>(name, c). (name, CategoryData_json c))) cats)
     = Inr (\<exists>(name, c) \<in> set cats. positive (time c))"
  by (induction cats) (auto simp: timePositive_CategoryData)

lemma weekly_read:
  "(if nonempty (getItem WEEKLY_KEY ls)
    then (case JSON_parse (the (getItem WEEKLY_KEY ls)) of Inl e \<Rightarrow> JArr [] | Inr v \<Rightarrow> v)
    else JArr []) = loadWeeklyData ls"
  by (simp add: loadWeeklyData_def Let_def split: sum.splits)

lemma archiveDay_DayData:
  assumes "loadWeeklyData ls = JArr log"
  shows "archiveDay (DayData_json d) ls =
           Inr (removeItem STORAGE_KEY
                  (if someTimePositive d
                   then setItem WEEKLY_KEY
                          (JSON_stringify (JArr (drop (Suc (length log) - 365) (log @ [DayData_json d])))) ls
                   else ls))"
proof -
  have c: "property (Some (DayData_json d)) ''categories'' =
             Inr (Some (JObj (map (\<lambda>(name, c). (name, CategoryData_json c)) (DayData.categories d))))"
    by (simp add: DayData_json_def)
  show ?thesis
    unfolding archiveDay_def c
    by (simp add: array_some_categories someTimePositive_def Let_def weekly_read assms
          del: property.simps)
qed

text \<open>
  When the stored log is a JSON text of something that is no array, \<open>weekly.push\<close> raises
  and nothing is written.
\<close>

lemma archiveDay_no_sequence:
  assumes "someTimePositive d" and "\<not> Array_isArray (Some (loadWeeklyData ls))"
  shows "archiveDay (DayData_json d) ls = Inl TypeError"
proof -
  have c: "property (Some (DayData_json d)) ''categories'' =
             Inr (Some (JObj (map (\<lambda>(name, c). (name, CategoryData_json c)) (DayData.categories d))))"
    by (simp add: DayData_json_def)
  from assms(2) have "(case loadWeeklyData ls of JArr days \<Rightarrow> Inr (f days) | _ \<Rightarrow> Inl TypeError)
      = Inl TypeError" for f :: "json list \<Rightarrow> localStorage"
    by (cases "loadWeeklyData ls") simp_all
  then show ?thesis
    unfolding archiveDay_def c
    using assms(1)
    by (simp add: array_some_categories someTimePositive_def Let_def weekly_read
          del: property.simps)
qed

lemma loadTodayData_rollover:
  assumes "getItem STORAGE_KEY ls = Some (Document (DayData_json d))" and "date d \<noteq> today"
  shows "loadTodayData today ls =
           (case archiveDay (DayData_json d) ls of
              Inl e \<Rightarrow> Inl e
            | Inr ls1 \<Rightarrow> Inr (Some (JObj []), ls1))"
  using assms by (simp add: loadTodayData_def Let_def DayData_json_def)

lemma foldl_NaN: "foldl (\<lambda>acc cat. js_add (Some acc) (time cat)) NaN xs = NaN"
  by (induction xs) auto

lemma total_bounded:
  "foldl (\<lambda>acc cat. js_add (Some acc) (time cat)) (Num a) (map snd cats) = Num t \<Longrightarrow>
   \<not> (\<exists>(name, c) \<in> set cats. positive (time c)) \<Longrightarrow> t \<le> a"
proof (induction cats arbitrary: a)
  case Nil
  then show ?case by simp
next
  case (Cons x cats)
  obtain name c where x: "x = (name, c)" by (cases x)
  show ?case
  proof (cases "time c")
    case None
    with Cons.prems x show ?thesis by (simp add: foldl_NaN)
  next
    case (Some n)
    show ?thesis
    proof (cases n)
      case (Num k)
      with Cons.prems x Some have "k \<le> 0" by simp
      moreover from Cons.prems x Some Num have "t \<le> a + k"
        using Cons.IH [of "a + k"] by simp
      ultimately show ?thesis by simp
    next
      case NaN
      with Cons.prems x Some show ?thesis by (simp add: foldl_NaN)
    qed
  qed
qed

lemma total_positive_activity:
  "getTotalTime (DayData.categories d) = Num t \<Longrightarrow> t > 0 \<Longrightarrow> someTimePositive d"
  using total_bounded [of 0 "DayData.categories d" t]
  by (auto simp: getTotalTime_def someTimePositive_def)

lemma total_grows:
  "foldl (\<lambda>acc cat. js_add (Some acc) (time cat)) (Num a) (map snd cats) = Num t \<Longrightarrow>
   \<forall>(name, c) \<in> set cats. nonnegative (time c) \<Longrightarrow>
   a \<le> t \<and> ((\<exists>(name, c) \<in> set cats. positive (time c)) \<longrightarrow> a < t)"
proof (induction cats arbitrary: a)
  case Nil
  then show ?case by simp
next
  case (Cons x cats)
  obtain name c where x: "x = (name, c)" by (cases x)
  from Cons.prems x obtain k where k: "time c = Some (Num k)" "k \<ge> 0"
    by (cases "time c" rule: nonnegative.cases) auto
  from Cons.prems x k have
    "a + k \<le> t \<and> ((\<exists>(name, c) \<in> set cats. positive (time c)) \<longrightarrow> a + k < t)"
    using Cons.IH [of "a + k"] by simp
  with x k show ?case by auto
qed

lemma total_zero_idle:
  "getTotalTime (DayData.categories d) = Num 0 \<Longrightarrow>
   \<forall>(name, c) \<in> set (DayData.categories d). nonnegative (time c) \<Longrightarrow> \<not> someTimePositive d"
  using total_grows [of 0 "DayData.categories d" 0]
  by (auto simp: getTotalTime_def someTimePositive_def)


lemma appendCapped_last: "last (appendCapped log day) = day"
  by (simp add: appendCapped_def)



lemma loadWeeklyData_setItem:
  "loadWeeklyData (removeItem STORAGE_KEY (setItem WEEKLY_KEY (JSON_stringify v) ls)) = v"
  by (simp add: loadWeeklyData_def removeItem_def setItem_def getItem_def JSON_stringify_def)

lemma yesterdayActive_positive: "someTimePositive yesterdayActive"
  by (simp add: someTimePositive_def yesterdayActive_def)

lemma yesterdayIdle_idle: "\<not> someTimePositive yesterdayIdle"
  by (simp add: someTimePositive_def yesterdayIdle_def)


text \<open>
  Claim C4. Let the stored historical log be a sequence \<open>log\<close> (no item, an empty or an
  unreadable item count as the empty sequence) and \<open>d\<close> a day record. \<open>archiveDay\<close>
  removes the current-day item in every case. If some category of \<open>d\<close> has \<open>time > 0\<close>
  it stores the log with \<open>d\<close> appended (capped at 365 entries), so that \<open>d\<close> is the last
  entry of the log; if none has, it leaves the log item as it is. \<open>loadTodayData\<close> on a
  stored record \<open>d\<close> of another day does exactly this and returns the empty category
  object. A total time above zero means that some category has \<open>time > 0\<close>, and a total
  of zero, with no negative times, that none has.
\<close>

theorem archive_on_rollover:
  assumes "loadWeeklyData ls = JArr log"
  shows "let ls1 = removeItem STORAGE_KEY
                     (if someTimePositive d
                      then setItem WEEKLY_KEY
                             (JSON_stringify (JArr (appendCapped log (DayData_json d)))) ls
                      else ls)
         in archiveDay (DayData_json d) ls = Inr ls1
          \<and> getItem STORAGE_KEY ls1 = None
          \<and> (someTimePositive d \<longrightarrow>
                loadWeeklyData ls1 = JArr (appendCapped log (DayData_json d))
              \<and> last (appendCapped log (DayData_json d)) = DayData_json d)
          \<and> (\<not> someTimePositive d \<longrightarrow> getItem WEEKLY_KEY ls1 = getItem WEEKLY_KEY ls)
          \<and> (getItem STORAGE_KEY ls = Some (Document (DayData_json d)) \<and> date d \<noteq> today \<longrightarrow>
                loadTodayData today ls = Inr (Some (JObj []), ls1))
          \<and> ((\<exists>t>0. getTotalTime (DayData.categories d) = Num t) \<longrightarrow> someTimePositive d)
          \<and> (getTotalTime (DayData.categories d) = Num 0
              \<and> (\<forall>(name, c) \<in> set (DayData.categories d). nonnegative (time c))
              \<longrightarrow> \<not> someTimePositive d)"
proof -
  have a: "archiveDay (DayData_json d) ls =
           Inr (removeItem STORAGE_KEY
                  (if someTimePositive d
                   then setItem WEEKLY_KEY
                          (JSON_stringify (JArr (appendCapped log (DayData_json d)))) ls
                   else ls))"
    using archiveDay_DayData [OF assms, of d] by (simp add: appendCapped_def)
  have t: "(\<exists>t>0. getTotalTime (DayData.categories d) = Num t) \<longrightarrow> someTimePositive d"
    using total_positive_activity by blast
  have z: "getTotalTime (DayData.categories d) = Num 0
              \<and> (\<forall>(name, c) \<in> set (DayData.categories d). nonnegative (time c))
              \<longrightarrow> \<not> someTimePositive d"
    using total_zero_idle by blast
  show ?thesis
    unfolding Let_def
    apply (intro conjI)
          apply (rule a)
         apply (simp add: removeItem_def getItem_def)
        apply (simp add: loadWeeklyData_setItem appendCapped_last)
       apply (simp add: removeItem_def getItem_def)
      apply (simp add: loadTodayData_rollover a)
     apply (rule t)
    apply (rule z)
    done
qed

theorem archive_on_rollover_witness:
  "loadWeeklyData [STORAGE_KEY \<mapsto> Document (DayData_json yesterdayActive)] = JArr []
   \<and> getItem STORAGE_KEY [STORAGE_KEY \<mapsto> Document (DayData_json yesterdayActive)]
       = Some (Document (DayData_json yesterdayActive))
   \<and> date yesterdayActive \<noteq> ''Mon Nov 02 2026''
   \<and> getTotalTime (DayData.categories yesterdayActive) = Num 10
   \<and> someTimePositive yesterdayActive
   \<and> loadTodayData ''Mon Nov 02 2026'' [STORAGE_KEY \<mapsto> Document (DayData_json yesterdayActive)]
       = Inr (Some (JObj []), [WEEKLY_KEY \<mapsto> Document (JArr [DayData_json yesterdayActive])])
   \<and> loadWeeklyData [STORAGE_KEY \<mapsto> Document (DayData_json yesterdayIdle)] = JArr []
   \<and> getItem STORAGE_KEY [STORAGE_KEY \<mapsto> Document (DayData_json yesterdayIdle)]
       = Some (Document (DayData_json yesterdayIdle))
   \<and> date yesterdayIdle \<noteq> ''Mon Nov 02 2026''
   \<and> getTotalTime (DayData.categories yesterdayIdle) = Num 0
   \<and> list_all (\<lambda>(name, c). nonnegative (time c)) (DayData.categories yesterdayIdle)
   \<and> \<not> someTimePositive yesterdayIdle
   \<and> loadTodayData ''Mon Nov 02 2026'' [STORAGE_KEY \<mapsto> Document (DayData_json yesterdayIdle)]
       = Inr (Some (JObj []), Map.empty)"
proof -
  have la: "loadWeeklyData [STORAGE_KEY \<mapsto> Document (DayData_json yesterdayActive)] = JArr []"
    by (simp add: loadWeeklyData_def getItem_def)
  have li: "loadWeeklyData [STORAGE_KEY \<mapsto> Document (DayData_json yesterdayIdle)] = JArr []"
    by (simp add: loadWeeklyData_def getItem_def)
  have ta: "getTotalTime (DayData.categories yesterdayActive) = Num 10"
    by (simp add: getTotalTime_def yesterdayActive_def)
  have ti: "getTotalTime (DayData.categories yesterdayIdle) = Num 0"
    by (simp add: getTotalTime_def yesterdayIdle_def)
  have da: "date yesterdayActive \<noteq> ''Mon Nov 02 2026''"
    by (simp add: yesterdayActive_def)
  have di: "date yesterdayIdle \<noteq> ''Mon Nov 02 2026''"
    by (simp add: yesterdayIdle_def)
  have ni: "\<forall>(name, c) \<in> set (DayData.categories yesterdayIdle). nonnegative (time c)"
    by (simp add: yesterdayIdle_def)
  have ea: "removeItem STORAGE_KEY (setItem WEEKLY_KEY
              (JSON_stringify (JArr (appendCapped [] (DayData_json yesterdayActive))))
              [STORAGE_KEY \<mapsto> Document (DayData_json yesterdayActive)])
            = [WEEKLY_KEY \<mapsto> Document (JArr [DayData_json yesterdayActive])]"
    by (auto simp: removeItem_def setItem_def JSON_stringify_def appendCapped_def fun_eq_iff)
  have ei: "removeItem STORAGE_KEY [STORAGE_KEY \<mapsto> Document (DayData_json yesterdayIdle)] = Map.empty"
    by (simp add: removeItem_def)
  from archive_on_rollover [OF la, of yesterdayActive "''Mon Nov 02 2026''"]
    archive_on_rollover [OF li, of yesterdayIdle "''Mon Nov 02 2026''"]
    la li ta ti da di ni ea ei yesterdayActive_positive yesterdayIdle_idle
  show ?thesis
    by (simp add: Let_def getItem_def list_all_iff)
qed





section \<open>Unreadable items\<close>

lemma loadTodayData_malformed:
  "getItem STORAGE_KEY ls = Some Malformed \<Longrightarrow> loadTodayData today ls = Inl SyntaxError"
  by (simp add: loadTodayData_def)

lemma loadTodayData_null:
  "getItem STORAGE_KEY ls = Some (Document JNull) \<Longrightarrow> loadTodayData today ls = Inl TypeError"
  by (simp add: loadTodayData_def)

lemma loadWeeklyData_malformed:
  "getItem WEEKLY_KEY ls = Some Malformed \<Longrightarrow> loadWeeklyData ls = JArr []"
  by (simp add: loadWeeklyData_def)

text \<open>
  Claim C6 says that no stored string makes a load raise. \<open>loadWeeklyData\<close> has its
  \<open>JSON.parse\<close> inside \<open>try\<close> and returns the empty list for an unreadable item.
  \<open>loadTodayData\<close> has not: on a current-day item that is no JSON text it raises the
  \<open>SyntaxError\<close> of \<open>JSON.parse\<close> instead of returning an empty category object.
\<close>

theorem corrupted_day_throws:
  "exception (loadTodayData ''Mon Nov 02 2026'' [STORAGE_KEY \<mapsto> Malformed]) = Some SyntaxError
   \<and> loadWeeklyData [WEEKLY_KEY \<mapsto> Malformed] = JArr []"
  by (simp add: loadTodayData_def loadWeeklyData_def getItem_def exception_def)

section \<open>Import and export\<close>

text \<open>
  Claim C10. Importing a JSON object whose \<open>version\<close> is missing or a number of at most
  \<open>1\<close>, whose \<open>currentDay\<close> is missing or falsy and whose \<open>archiveData\<close> is no array
  reports success and leaves the storage as it was; so does the import of \<open>{}\<close>.
\<close>

theorem import_without_data:
  assumes "lookup (JObj kvs) ''version'' = None
         \<or> (\<exists>n\<le>1. lookup (JObj kvs) ''version'' = Some (JNum n))"
    and "\<not> truthy (lookup (JObj kvs) ''currentDay'')"
    and "\<not> Array_isArray (lookup (JObj kvs) ''archiveData'')"
  shows "importDataFromJson (Document (JObj kvs)) ls = (True, ls)"
proof -
  have "\<not> greater (if truthy (lookup (JObj kvs) ''version'')
                    then lookup (JObj kvs) ''version'' else Some (JNum 1)) 1"
    using assms(1) by (auto simp: greater_def)
  with assms(2,3) show ?thesis
    by (simp add: importDataFromJson_def Let_def)
qed

theorem import_without_data_witness:
  "(lookup (JObj []) ''version'' = None
      \<or> (\<exists>n\<le>1. lookup (JObj []) ''version'' = Some (JNum n)))
   \<and> \<not> truthy (lookup (JObj []) ''currentDay'')
   \<and> \<not> Array_isArray (lookup (JObj []) ''archiveData'')
   \<and> importDataFromJson (Document (JObj []))
        [STORAGE_KEY \<mapsto> Document (DayData_json yesterdayActive)]
       = (True, [STORAGE_KEY \<mapsto> Document (DayData_json yesterdayActive)])
   \<and> importDataFromJson
        (Document (JObj [(''version'', JNum 1), (''currentDay'', JNull), (''archiveData'', JStr ''none'')]))
        Map.empty
       = (True, Map.empty)"
proof -
  have h: "lookup (JObj []) ''version'' = None
      \<or> (\<exists>n\<le>1. lookup (JObj []) ''version'' = Some (JNum n))"
    "\<not> truthy (lookup (JObj []) ''currentDay'')"
    "\<not> Array_isArray (lookup (JObj []) ''archiveData'')"
    by simp_all
  have g: "lookup (JObj [(''version'', JNum 1), (''currentDay'', JNull), (''archiveData'', JStr ''none'')]) ''version'' = None
      \<or> (\<exists>n\<le>1. lookup (JObj [(''version'', JNum 1), (''currentDay'', JNull), (''archiveData'', JStr ''none'')]) ''version'' = Some (JNum n))"
    "\<not> truthy (lookup (JObj [(''version'', JNum 1), (''currentDay'', JNull), (''archiveData'', JStr ''none'')]) ''currentDay'')"
    "\<not> Array_isArray (lookup (JObj [(''version'', JNum 1), (''currentDay'', JNull), (''archiveData'', JStr ''none'')]) ''archiveData'')"
    by simp_all
  from import_without_data [OF h] import_without_data [OF g] h
  show ?thesis
    by simp
qed

lemma export_shape:
  assumes "exportDataToJson exportDate ls = (True, Some snapshot)"
  shows "snapshot =
           Document (JObj [(''version'', JNum 1), (''exportDate'', JStr exportDate),
                           (''currentDay'', case storedDay ls of None \<Rightarrow> JNull | Some v \<Rightarrow> v),
                           (''archiveData'', loadWeeklyData ls)])"
  using assms
  by (auto simp: exportDataToJson_def storedDay_def loadWeeklyData_def Let_def
        JSON_stringify_def projr_option_def split: sum.splits if_splits)

lemma import_snapshot:
  "importDataFromJson
     (Document (JObj [(''version'', JNum 1), (''exportDate'', JStr exportDate),
                      (''currentDay'', cd), (''archiveData'', ad)])) later
   = (True,
      (if Array_isArray (Some ad) then setItem WEEKLY_KEY (Document ad) else id)
        ((if truthy (Some cd) then setItem STORAGE_KEY (Document cd) else id) later))"
  by (simp add: importDataFromJson_def Let_def greater_def JSON_stringify_def)

lemma storedDay_setItem: "storedDay (setItem STORAGE_KEY (Document v) ls) = Some v"
  by (simp add: storedDay_def setItem_def getItem_def projr_option_def)

lemma storedDay_setItem_weekly: "storedDay (setItem WEEKLY_KEY x ls) = storedDay ls"
  by (simp add: storedDay_def setItem_def getItem_def)

lemma loadWeeklyData_setItem_weekly: "loadWeeklyData (setItem WEEKLY_KEY (Document v) ls) = v"
  by (simp add: loadWeeklyData_def setItem_def getItem_def)

lemma loadWeeklyData_setItem_day: "loadWeeklyData (setItem STORAGE_KEY x ls) = loadWeeklyData ls"
  by (simp add: loadWeeklyData_def setItem_def getItem_def)

lemma storedDay_falsy_cases:
  "\<not> truthy (storedDay ls) \<Longrightarrow> \<not> truthy (Some (case storedDay ls of None \<Rightarrow> JNull | Some v \<Rightarrow> v))"
  by (cases "storedDay ls") auto

lemma storedDay_truthy_cases:
  "truthy (storedDay ls) \<Longrightarrow>
   storedDay ls = Some (case storedDay ls of None \<Rightarrow> JNull | Some v \<Rightarrow> v)
   \<and> truthy (Some (case storedDay ls of None \<Rightarrow> JNull | Some v \<Rightarrow> v))"
  by (cases "storedDay ls") auto

text \<open>
  Claim C9 says that importing an exported snapshot restores the current-day record and
  the historical log of the time of the export. \<open>importDataFromJson\<close> writes the
  current-day item only if the snapshot has a \<open>currentDay\<close>, and an export from a storage
  without a current-day item has \<open>currentDay: null\<close>. So a snapshot taken from the empty
  storage, imported later into a storage that holds a day record, leaves that record in
  place, where the storage had none at the time of the export.
\<close>

theorem import_keeps_later_day:
  "fst (exportDataToJson ''2026-11-02T09:00:00.000Z'' Map.empty)
   \<and> fst (importDataFromJson (the (snd (exportDataToJson ''2026-11-02T09:00:00.000Z'' Map.empty)))
            [STORAGE_KEY \<mapsto> Document (DayData_json yesterdayActive)])
   \<and> storedDay (snd (importDataFromJson
            (the (snd (exportDataToJson ''2026-11-02T09:00:00.000Z'' Map.empty)))
            [STORAGE_KEY \<mapsto> Document (DayData_json yesterdayActive)]))
       = Some (DayData_json yesterdayActive)
   \<and> storedDay Map.empty = None"
  by (simp add: exportDataToJson_def importDataFromJson_def storedDay_def getItem_def setItem_def
        JSON_stringify_def greater_def projr_option_def Let_def)

text \<open>
  Claim C9, as amended. Let \<open>exportDataToJson\<close> produce a snapshot from the storage \<open>ls\<close>.
  Importing the snapshot into any storage succeeds; it restores the historical log of
  \<open>ls\<close> if that was a sequence (none counts as the empty one) and the current-day record
  of \<open>ls\<close> if there was one (a truthy value). If \<open>ls\<close> had no current-day record, the
  import leaves the current-day item of the importing storage as it is, and likewise the
  log item if the log of \<open>ls\<close> was no sequence. Importing into \<open>ls\<close> itself therefore
  keeps both the record and the log.
\<close>

theorem import_of_export:
  assumes "exportDataToJson exportDate ls = (True, Some snapshot)"
  shows "fst (importDataFromJson snapshot later)
     \<and> (Array_isArray (Some (loadWeeklyData ls)) \<longrightarrow>
          loadWeeklyData (snd (importDataFromJson snapshot later)) = loadWeeklyData ls)
     \<and> (\<not> Array_isArray (Some (loadWeeklyData ls)) \<longrightarrow>
          getItem WEEKLY_KEY (snd (importDataFromJson snapshot later)) = getItem WEEKLY_KEY later)
     \<and> (truthy (storedDay ls) \<longrightarrow>
          storedDay (snd (importDataFromJson snapshot later)) = storedDay ls)
     \<and> (\<not> truthy (storedDay ls) \<longrightarrow>
          getItem STORAGE_KEY (snd (importDataFromJson snapshot later)) = getItem STORAGE_KEY later)
     \<and> storedDay (snd (importDataFromJson snapshot ls)) = storedDay ls
     \<and> loadWeeklyData (snd (importDataFromJson snapshot ls)) = loadWeeklyData ls"
proof -
  let ?cd = "case storedDay ls of None \<Rightarrow> JNull | Some v \<Rightarrow> v"
  have i: "\<And>st. importDataFromJson snapshot st =
          (True,
           (if Array_isArray (Some (loadWeeklyData ls))
            then setItem WEEKLY_KEY (Document (loadWeeklyData ls)) else id)
             ((if truthy (Some ?cd) then setItem STORAGE_KEY (Document ?cd) else id) st))"
    unfolding export_shape [OF assms] by (rule import_snapshot)
  have 1: "fst (importDataFromJson snapshot later)"
    by (simp add: i)
  have 2: "Array_isArray (Some (loadWeeklyData ls)) \<longrightarrow>
          loadWeeklyData (snd (importDataFromJson snapshot later)) = loadWeeklyData ls"
    by (simp add: i loadWeeklyData_setItem_weekly)
  have 3: "\<not> Array_isArray (Some (loadWeeklyData ls)) \<longrightarrow>
          getItem WEEKLY_KEY (snd (importDataFromJson snapshot later)) = getItem WEEKLY_KEY later"
    by (simp add: i getItem_def setItem_def)
  have 4: "truthy (storedDay ls) \<longrightarrow>
          storedDay (snd (importDataFromJson snapshot later)) = storedDay ls"
    using storedDay_truthy_cases [of ls]
    by (auto simp: i storedDay_setItem storedDay_setItem_weekly)
  have 5: "\<not> truthy (storedDay ls) \<longrightarrow>
          getItem STORAGE_KEY (snd (importDataFromJson snapshot later)) = getItem STORAGE_KEY later"
    using storedDay_falsy_cases [of ls]
    by (auto simp: i getItem_def setItem_def)
  have 6: "storedDay (snd (importDataFromJson snapshot ls)) = storedDay ls"
    using storedDay_truthy_cases [of ls] storedDay_falsy_cases [of ls]
    by (cases "truthy (storedDay ls)")
       (auto simp: i storedDay_setItem storedDay_setItem_weekly)
  have 7: "loadWeeklyData (snd (importDataFromJson snapshot ls)) = loadWeeklyData ls"
    by (simp add: i loadWeeklyData_setItem_weekly loadWeeklyData_setItem_day)
  from 1 2 3 4 5 6 7 show ?thesis by blast
qed

theorem import_of_export_witness:
  "exportDataToJson ''2026-11-02T09:00:00.000Z''
       [STORAGE_KEY \<mapsto> Document (DayData_json yesterdayActive), WEEKLY_KEY \<mapsto> Document (JArr yearLog)]
     = (True, Some (Document (JObj [(''version'', JNum 1),
                                    (''exportDate'', JStr ''2026-11-02T09:00:00.000Z''),
                                    (''currentDay'', DayData_json yesterdayActive),
                                    (''archiveData'', JArr yearLog)])))
   \<and> Array_isArray (Some (loadWeeklyData
       [STORAGE_KEY \<mapsto> Document (DayData_json yesterdayActive), WEEKLY_KEY \<mapsto> Document (JArr yearLog)]))
   \<and> truthy (storedDay
       [STORAGE_KEY \<mapsto> Document (DayData_json yesterdayActive), WEEKLY_KEY \<mapsto> Document (JArr yearLog)])
   \<and> storedDay (snd (importDataFromJson
         (Document (JObj [(''version'', JNum 1),
                          (''exportDate'', JStr ''2026-11-02T09:00:00.000Z''),
                          (''currentDay'', DayData_json yesterdayActive),
                          (''archiveData'', JArr yearLog)]))
         [STORAGE_KEY \<mapsto> Document (DayData_json yesterdayIdle)]))
       = Some (DayData_json yesterdayActive)
   \<and> loadWeeklyData (snd (importDataFromJson
         (Document (JObj [(''version'', JNum 1),
                          (''exportDate'', JStr ''2026-11-02T09:00:00.000Z''),
                          (''currentDay'', DayData_json yesterdayActive),
                          (''archiveData'', JArr yearLog)]))
         [STORAGE_KEY \<mapsto> Document (DayData_json yesterdayIdle)]))
       = JArr yearLog"
proof -
  let ?ls = "[STORAGE_KEY \<mapsto> Document (DayData_json yesterdayActive),
              WEEKLY_KEY \<mapsto> Document (JArr yearLog)]"
  let ?snap = "Document (JObj [(''version'', JNum 1),
                          (''exportDate'', JStr ''2026-11-02T09:00:00.000Z''),
                          (''currentDay'', DayData_json yesterdayActive),
                          (''archiveData'', JArr yearLog)])"
  have e: "exportDataToJson ''2026-11-02T09:00:00.000Z'' ?ls = (True, Some ?snap)"
    by (simp add: exportDataToJson_def getItem_def JSON_stringify_def Let_def)
  have w: "loadWeeklyData ?ls = JArr yearLog"
    by (simp add: loadWeeklyData_def getItem_def)
  have d: "storedDay ?ls = Some (DayData_json yesterdayActive)"
    by (simp add: storedDay_def getItem_def projr_option_def)
  have t: "truthy (Some (DayData_json yesterdayActive))"
    by (simp add: DayData_json_def)
  from import_of_export [OF e, of "[STORAGE_KEY \<mapsto> Document (DayData_json yesterdayIdle)]"] e w d t
  show ?thesis
    by simp
qed

end
